theory Spec2Isabelle
  imports Complex_Main
begin

section \<open>The recommendation engine of the football analytics service\<close>

text \<open>
  The development embeds the decision logic of \<^verbatim>\<open>main.py\<close>: the heuristic probability
  model (\<^verbatim>\<open>heuristic_probs\<close>), the expected value (\<^verbatim>\<open>ev\<close>), the Kelly stake
  (\<^verbatim>\<open>kelly_fraction\<close>) and the endpoint \<^verbatim>\<open>recommendation\<close> that assembles them.

  Conventions of the embedding:
  \<^item> a Python \<^verbatim>\<open>int\<close> is an \<open>int\<close>; a Python \<^verbatim>\<open>float\<close> is idealised as a \<open>real\<close>, so
    the rounding error of binary arithmetic, overflow, infinities and NaN are outside the
    model;
  \<^item> \<^verbatim>\<open>Optional[float]\<close> is \<open>real option\<close>, with \<open>None\<close> for Python's \<^verbatim>\<open>None\<close>;
  \<^item> a dictionary with fixed string keys is an association list in the order in which
    the source writes the keys (Python dictionaries keep insertion order);
  \<^item> a string is a list of bytes, the UTF-8 encoding of the source's literal.
\<close>

subsection \<open>Data model\<close>

datatype momentum = Home | Away | Balanced

record LiveStats =
  minute :: int
  score_home :: int
  score_away :: int
  shots_total :: int
  shots_box :: int
  shots_on :: int
  big_chances :: int
  corners :: int
  possession_home :: int
  possession_away :: int
  momentum :: momentum
  xg_sum :: "real option"

record OddsInput =
  odds_over25 :: "real option"
  odds_over05_ht :: "real option"
  odds_btts :: "real option"
  odds_oneXtwo :: "(string \<times> real) list option"

record RecRequest =
  stats :: LiveStats
  odds :: OddsInput
  models_selected :: "string list"
  all_models :: bool

text \<open>The response. Its field \<^verbatim>\<open>ev\<close> is \<open>ev_out\<close> here, the name \<open>ev\<close> being the
  function's.\<close>

record RecOutput =
  p_over25 :: real
  p_goal_ht :: real
  p_btts :: real
  p_1x2 :: "(string \<times> real) list"
  ev_out :: "(string \<times> real option) list"
  min_odds :: "(string \<times> real) list"
  stake_kelly :: "(string \<times> real) list"
  rationale :: "string list"
  models_used :: "string list"

text \<open>The value \<^verbatim>\<open>heuristic_probs\<close> returns: a dictionary with three numbers and one
  nested dictionary, hence a record.\<close>

record Probs =
  over25 :: real
  goal_ht :: real
  btts :: real
  oneXtwo :: "(string \<times> real) list"

text \<open>The mock snapshot that \<^verbatim>\<open>live_stats\<close> returns for every fixture.\<close>

definition live_stats :: "string \<Rightarrow> LiveStats" where
  "live_stats fixture_id =
     \<lparr> minute = 27, score_home = 0, score_away = 0,
       shots_total = 2, shots_box = 1, shots_on = 1,
       big_chances = 0, corners = 1, possession_home = 52, possession_away = 48,
       momentum = Balanced, xg_sum = Some 0.25 \<rparr>"

subsection \<open>Python's built-ins\<close>

text \<open>\<^verbatim>\<open>round(x, n)\<close> on a float rounds to \<open>n\<close> decimals, a tie going to the even
  neighbour.\<close>

definition round_half_even :: "real \<Rightarrow> int" where
  "round_half_even x =
     (let f = \<lfloor>x\<rfloor>; d = x - of_int f
      in if d < 1/2 then f else if 1/2 < d then f + 1 else if even f then f else f + 1)"

definition round_py :: "real \<Rightarrow> nat \<Rightarrow> real" where
  "round_py x n = of_int (round_half_even (x * 10 ^ n)) / 10 ^ n"

text \<open>\<^verbatim>\<open>x or 0\<close> for an optional float: \<^verbatim>\<open>None\<close> and \<^verbatim>\<open>0.0\<close> are falsy.\<close>

definition or_zero :: "real option \<Rightarrow> real" where
  "or_zero x = (case x of None \<Rightarrow> 0 | Some v \<Rightarrow> if v = 0 then 0 else v)"

subsection \<open>The probability model\<close>

definition sigmoid :: "real \<Rightarrow> real" where
  "sigmoid x = 1 / (1 + exp (- x))"

definition clip01 :: "real \<Rightarrow> real" where
  "clip01 x = max 0.01 (min 0.95 x)"

text \<open>The guard \<^verbatim>\<open>s.xg_sum and s.xg_sum>=0.9\<close>: \<^verbatim>\<open>None\<close> and \<^verbatim>\<open>0.0\<close> are falsy.\<close>

definition xg_high :: "real option \<Rightarrow> bool" where
  "xg_high x = (case x of None \<Rightarrow> False | Some v \<Rightarrow> v \<noteq> 0 \<and> 0.9 \<le> v)"

definition heuristic_probs :: "LiveStats \<Rightarrow> Probs" where
  "heuristic_probs s =
     (let over_raw = 0.30 + 0.02 * of_int (shots_total s) + 0.04 * of_int (shots_box s)
                     + 0.08 * of_int (big_chances s) + (if xg_high (xg_sum s) then 0.20 else 0.0);
          goal_ht_raw = 0.15 + 0.03 * of_int (shots_box s) + 0.03 * of_int (corners s)
                     + (if momentum s \<noteq> Balanced then 0.07 else 0.0);
          btts_raw = 0.25 + 0.05 * (if momentum s = Balanced then 1 else 0)
                     + 0.02 * of_int (shots_on s);
          p1 = sigmoid (of_int (possession_home s - 50) / 10);
          p2 = sigmoid (of_int (possession_away s - 50) / 10);
          p_draw = 0.20;
          total = p1 + p2 + p_draw;
          p1' = p1 / total; p2' = p2 / total; p_draw' = p_draw / total
      in \<lparr> over25 = clip01 over_raw,
           goal_ht = clip01 goal_ht_raw,
           btts = clip01 btts_raw,
           oneXtwo = [(''1'', clip01 p1'), (''X'', clip01 p_draw'), (''2'', clip01 p2')] \<rparr>)"


subsection \<open>Expected value and Kelly stake\<close>

definition ev :: "real option \<Rightarrow> real option \<Rightarrow> real option" where
  "ev prob oddsv =
     (case prob of None \<Rightarrow> None
      | Some p \<Rightarrow> (case oddsv of None \<Rightarrow> None | Some od \<Rightarrow> Some (p * od - 1)))"

definition kelly_fraction :: "real option \<Rightarrow> real option \<Rightarrow> real" where
  "kelly_fraction prob oddsv =
     (case prob of None \<Rightarrow> 0.0
      | Some p \<Rightarrow>
         (case oddsv of None \<Rightarrow> 0.0
          | Some od \<Rightarrow>
             (let b = od - 1;
                  edge = (if 0 < b then p - (1 - p) / b else - 1)
              in max 0.0 (min 0.5 (if 0 < b then edge / b else 0.0)))))"

subsection \<open>The endpoint\<close>

definition msg_over25 :: string where
  "msg_over25 = ''Volume e qualit'' @ [CHR 0xC3, CHR 0xA0]
                @ '' alte per Over 2.5 (>=9 tiri, >=5 in area).''"

definition msg_big_chance :: string where
  "msg_big_chance = ''Almeno una big chance creata.''"

definition msg_goal_ht :: string where
  "msg_goal_ht = ''Finestra 25'' @ [CHR 0xE2, CHR 0x80, CHR 0x93]
                 @ ''35 con pressione: favorevole a Gol 1T.''"

definition msg_btts :: string where
  "msg_btts = ''Pressione simmetrica: BTTS favorito.''"

definition msg_fallback :: string where
  "msg_fallback = ''Segnali insufficienti: attendere nuovo picco di pressione.''"

definition default_models :: "string list" where
  "default_models = [''bayes_goals'', ''bivar_poisson'', ''bayes_xg'', ''ensemble'', ''xt'', ''xpts'']"

text \<open>The dictionary \<^verbatim>\<open>evs\<close> of \<^verbatim>\<open>recommendation\<close>, before the response rounds it.\<close>

definition evs :: "RecRequest \<Rightarrow> (string \<times> real option) list" where
  "evs req =
     (let base = heuristic_probs (stats req)
      in [(''over25'', ev (Some (over25 base)) (odds_over25 (odds req))),
          (''goal_ht'', ev (Some (goal_ht base)) (odds_over05_ht (odds req))),
          (''btts'', ev (Some (btts base)) (odds_btts (odds req)))])"

definition stakes :: "RecRequest \<Rightarrow> (string \<times> real) list" where
  "stakes req =
     (let base = heuristic_probs (stats req)
      in [(''over25'',
             round_py (0.25 * kelly_fraction (Some (over25 base))
                                (Some (or_zero (odds_over25 (odds req))))) 3),
          (''goal_ht'',
             round_py (0.25 * kelly_fraction (Some (goal_ht base))
                                (Some (or_zero (odds_over05_ht (odds req))))) 3),
          (''btts'',
             round_py (0.20 * kelly_fraction (Some (btts base))
                                (Some (or_zero (odds_btts (odds req))))) 3)])"

text \<open>The four \<^verbatim>\<open>if ...: rationale.append(...)\<close> statements, in the order of the source.\<close>

definition rationale_list :: "LiveStats \<Rightarrow> string list" where
  "rationale_list s =
     (let r0 = [];
          r1 = (if 9 \<le> shots_total s \<and> 5 \<le> shots_box s then r0 @ [msg_over25] else r0);
          r2 = (if 1 \<le> big_chances s then r1 @ [msg_big_chance] else r1);
          r3 = (if 25 \<le> minute s \<and> minute s \<le> 35 \<and> 2 \<le> corners s \<and> 3 \<le> shots_box s
                then r2 @ [msg_goal_ht] else r2);
          r4 = (if momentum s = Balanced \<and> 2 \<le> shots_on s then r3 @ [msg_btts] else r3)
      in r4)"

definition recommendation :: "RecRequest \<Rightarrow> RecOutput" where
  "recommendation req =
     (let s = stats req;
          base = heuristic_probs s;
          rationale0 = rationale_list s;
          models = (if \<not> all_models req then models_selected req
                    else [''bayes_goals'', ''bivar_poisson'', ''bayes_xg'', ''ensemble'',
                          ''xt'', ''xpts'', ''kelly''])
      in \<lparr> p_over25 = round_py (over25 base) 3,
           p_goal_ht = round_py (goal_ht base) 3,
           p_btts = round_py (btts base) 3,
           p_1x2 = map (\<lambda>(k, v). (k, round_py v 3)) (oneXtwo base),
           ev_out = map (\<lambda>(k, v). (k, case v of None \<Rightarrow> None | Some x \<Rightarrow> Some (round_py x 3)))
                        (evs req),
           min_odds = [(''over25'', 1.70), (''goal_ht'', 1.60), (''btts'', 1.75)],
           stake_kelly = stakes req,
           rationale = (if rationale0 = [] then [msg_fallback] else rationale0),
           models_used = models \<rparr>)"


subsection \<open>Reference definitions, written from the specification\<close>

text \<open>The four threshold rules of the rationale generator, as the specification lists
  them: each a condition with its message, in the fixed order.\<close>

definition rationale_rules :: "LiveStats \<Rightarrow> (bool \<times> string) list" where
  "rationale_rules s =
     [(9 \<le> shots_total s \<and> 5 \<le> shots_box s, msg_over25),
      (1 \<le> big_chances s, msg_big_chance),
      (25 \<le> minute s \<and> minute s \<le> 35 \<and> 2 \<le> corners s \<and> 3 \<le> shots_box s, msg_goal_ht),
      (momentum s = Balanced \<and> 2 \<le> shots_on s, msg_btts)]"

definition fired :: "LiveStats \<Rightarrow> string list" where
  "fired s = map snd (filter fst (rationale_rules s))"

text \<open>A market has no usable price when its odds are absent, are zero, or leave net odds
  \<open>b = o - 1\<close> that are not positive.\<close>

definition no_price :: "real option \<Rightarrow> bool" where
  "no_price x = (case x of None \<Rightarrow> True | Some od \<Rightarrow> od = 0 \<or> od - 1 \<le> 0)"

text \<open>The over-2.5 probability as the specification words it: \<open>xg_sum\<close> present and at
  least 0.9.\<close>

definition over25_spec :: "LiveStats \<Rightarrow> real" where
  "over25_spec s =
     max 0.01 (min 0.95
       (0.30 + 0.02 * of_int (shots_total s) + 0.04 * of_int (shots_box s)
        + 0.08 * of_int (big_chances s)
        + (case xg_sum s of None \<Rightarrow> 0 | Some x \<Rightarrow> if 0.9 \<le> x then 0.20 else 0)))"

text \<open>The stake as the specification words it: the Kelly fraction is scaled by the
  safety multiplier and the scaled value is clamped to \<open>[0, 0.5]\<close>.\<close>

definition stake_spec :: "real \<Rightarrow> real \<Rightarrow> real \<Rightarrow> real" where
  "stake_spec mult p od =
     (let b = od - 1; edge = p - (1 - p) / b; kelly = edge / b
      in round_py (max 0.0 (min 0.5 (mult * kelly))) 3)"

text \<open>The same with the two steps in the other order: the Kelly fraction is clamped to
  \<open>[0, 0.5]\<close> and the clamped value is scaled.\<close>

definition stake_clamped_then_scaled :: "real \<Rightarrow> real \<Rightarrow> real \<Rightarrow> real" where
  "stake_clamped_then_scaled mult p od =
     (let b = od - 1; edge = p - (1 - p) / b; kelly = edge / b
      in round_py (mult * max 0.0 (min 0.5 kelly)) 3)"

subsection \<open>Concrete requests\<close>

definition no_odds :: OddsInput where
  "no_odds = \<lparr> odds_over25 = None, odds_over05_ht = None, odds_btts = None,
               odds_oneXtwo = None \<rparr>"

definition request :: "LiveStats \<Rightarrow> OddsInput \<Rightarrow> RecRequest" where
  "request s od = \<lparr> stats = s, odds = od, models_selected = default_models,
                     all_models = True \<rparr>"

text \<open>A request whose three markets lack a usable price in the three possible ways.\<close>

definition unpriced_request :: RecRequest where
  "unpriced_request =
     request (live_stats ''1002'')
       \<lparr> odds_over25 = None, odds_over05_ht = Some 0, odds_btts = Some 0.8,
         odds_oneXtwo = None \<rparr>"

text \<open>The example of the specification: the mock snapshot and no odds.\<close>

definition example_request :: RecRequest where
  "example_request = request (live_stats ''1002'') no_odds"

text \<open>A snapshot of heavy pressure, with a price for each market.\<close>

definition pressing_stats :: LiveStats where
  "pressing_stats =
     \<lparr> minute = 60, score_home = 1, score_away = 1,
       shots_total = 20, shots_box = 10, shots_on = 8,
       big_chances = 2, corners = 6, possession_home = 55, possession_away = 45,
       momentum = Home, xg_sum = Some 1.8 \<rparr>"

definition priced_request :: RecRequest where
  "priced_request =
     request pressing_stats
       \<lparr> odds_over25 = Some 1.5, odds_over05_ht = Some 1.4, odds_btts = Some 2.1,
         odds_oneXtwo = None \<rparr>"



section \<open>Properties\<close>

subsection \<open>Rounding\<close>

lemma round_half_even_of_int: "round_half_even (of_int k) = k"
  by (simp add: round_half_even_def)


lemma round_half_even_mono:
  assumes "x \<le> y"
  shows "round_half_even x \<le> round_half_even y"
proof (cases "\<lfloor>x\<rfloor> = \<lfloor>y\<rfloor>")
  case True
  with assms show ?thesis unfolding round_half_even_def Let_def by auto
next
  case False
  with assms have "\<lfloor>x\<rfloor> < \<lfloor>y\<rfloor>" by (simp add: floor_mono order.strict_iff_order)
  then have "\<lfloor>x\<rfloor> + 1 \<le> \<lfloor>y\<rfloor>" by simp
  moreover have "round_half_even x \<le> \<lfloor>x\<rfloor> + 1" unfolding round_half_even_def Let_def by auto
  moreover have "\<lfloor>y\<rfloor> \<le> round_half_even y" unfolding round_half_even_def Let_def by auto
  ultimately show ?thesis by linarith
qed

lemma round_py_mono: "x \<le> y \<Longrightarrow> round_py x n \<le> round_py y n"
  unfolding round_py_def
  by (intro divide_right_mono) (auto intro!: round_half_even_mono mult_right_mono)

lemma round_py_of_int: "round_py (of_int k / 10 ^ n) n = of_int k / 10 ^ n"
  by (simp add: round_py_def round_half_even_of_int)

lemma round_py_3_fix: "round_py (of_int k / 1000) 3 = of_int k / 1000"
  using round_py_of_int [of k 3] by simp

lemma round_py_zero: "round_py 0 n = 0"
  by (simp add: round_py_def round_half_even_def)

subsection \<open>Clamping\<close>

lemma clamp_range: "0 \<le> max 0 (min c z) \<and> max 0 (min c z) \<le> c" if "0 \<le> c" for c z :: real
  using that by (auto simp: min_def max_def)

lemma clamp_mono: "max l (min c x) \<le> max l (min c y)" if "x \<le> y" for c l x y :: real
  using that by (auto simp: min_def max_def)

subsection \<open>The rationale generator\<close>

lemma rationale_list_fired: "rationale_list s = fired s"
  by (simp add: rationale_list_def fired_def rationale_rules_def Let_def)

lemma msgs_distinct: "distinct [msg_over25, msg_big_chance, msg_goal_ht, msg_btts, msg_fallback]"
  by (simp add: msg_over25_def msg_big_chance_def msg_goal_ht_def msg_btts_def msg_fallback_def)

text \<open>
  Claim C7. For every request, the rationale of the response is the list of the messages
  of the rules that fire, rule 1 to rule 4 in this order, each rule judged on its own; when
  no rule fires it is the one fallback message. The list is never empty.
\<close>

theorem rationale_exact:
  "rationale (recommendation req) =
     (if fired (stats req) = [] then [msg_fallback] else fired (stats req))
   \<and> rationale (recommendation req) \<noteq> []"
  by (simp add: recommendation_def Let_def rationale_list_fired)

subsection \<open>Expected value\<close>

text \<open>
  Claim C4. The expected value is \<open>p * o - 1\<close> when the probability and the odds are both
  present and \<open>None\<close> when either is absent; the function is total, so there is no other
  outcome. The dictionary \<^verbatim>\<open>evs\<close> of the endpoint holds, for each market, this value at the
  model's probability and the market's odds; the response holds the same entries, each
  present value rounded to 3 decimals.
\<close>

theorem ev_contract:
  "ev (Some p) (Some od) = Some (p * od - 1)
   \<and> ev prob None = None
   \<and> ev None oddsv = None
   \<and> evs req =
       [(''over25'', map_option (\<lambda>od. over25 (heuristic_probs (stats req)) * od - 1)
                                (odds_over25 (odds req))),
        (''goal_ht'', map_option (\<lambda>od. goal_ht (heuristic_probs (stats req)) * od - 1)
                                 (odds_over05_ht (odds req))),
        (''btts'', map_option (\<lambda>od. btts (heuristic_probs (stats req)) * od - 1)
                              (odds_btts (odds req)))]
   \<and> ev_out (recommendation req) =
       map (\<lambda>(k, v). (k, map_option (\<lambda>x. round_py x 3) v)) (evs req)"
  by (simp add: ev_def evs_def recommendation_def Let_def map_option_case split: option.split)

subsection \<open>The Kelly stake\<close>

lemma kelly_fraction_None: "kelly_fraction prob None = 0"
  by (simp add: kelly_fraction_def split: option.split)

lemma kelly_fraction_no_edge: "od - 1 \<le> 0 \<Longrightarrow> kelly_fraction prob (Some od) = 0"
  by (simp add: kelly_fraction_def Let_def split: option.split)

lemma no_price_or_zero: "no_price x \<Longrightarrow> or_zero x - 1 \<le> 0"
  by (auto simp: no_price_def or_zero_def split: option.splits)

lemma stake_zero:
  assumes "no_price x"
  shows "round_py (m * kelly_fraction prob (Some (or_zero x))) 3 = 0"
proof -
  have "kelly_fraction prob (Some (or_zero x)) = 0"
    using assms by (intro kelly_fraction_no_edge no_price_or_zero)
  then show ?thesis by (simp add: round_py_zero)
qed

lemma stake_kelly_lookup:
  "map_of (stake_kelly (recommendation req)) ''over25'' =
     Some (round_py (0.25 * kelly_fraction (Some (over25 (heuristic_probs (stats req))))
                             (Some (or_zero (odds_over25 (odds req))))) 3)"
  "map_of (stake_kelly (recommendation req)) ''goal_ht'' =
     Some (round_py (0.25 * kelly_fraction (Some (goal_ht (heuristic_probs (stats req))))
                             (Some (or_zero (odds_over05_ht (odds req))))) 3)"
  "map_of (stake_kelly (recommendation req)) ''btts'' =
     Some (round_py (0.20 * kelly_fraction (Some (btts (heuristic_probs (stats req))))
                             (Some (or_zero (odds_btts (odds req))))) 3)"
  by (simp_all add: recommendation_def stakes_def Let_def)

text \<open>
  Claim C5. Whatever the probability, the stake of a market is exactly 0 when the market's
  odds are absent, are zero, or give net odds \<open>o - 1 \<le> 0\<close>; and \<^verbatim>\<open>kelly_fraction\<close> itself
  returns 0 for absent odds and for net odds that are not positive.
\<close>

theorem stake_zero_without_price:
  "(no_price (odds_over25 (odds req)) \<longrightarrow>
       map_of (stake_kelly (recommendation req)) ''over25'' = Some 0)
   \<and> (no_price (odds_over05_ht (odds req)) \<longrightarrow>
       map_of (stake_kelly (recommendation req)) ''goal_ht'' = Some 0)
   \<and> (no_price (odds_btts (odds req)) \<longrightarrow>
       map_of (stake_kelly (recommendation req)) ''btts'' = Some 0)
   \<and> kelly_fraction prob None = 0
   \<and> (od - 1 \<le> 0 \<longrightarrow> kelly_fraction prob (Some od) = 0)"
  unfolding stake_kelly_lookup
  using stake_zero kelly_fraction_None kelly_fraction_no_edge by blast

theorem stake_zero_without_price_witness:
  "no_price (odds_over25 (odds unpriced_request))
   \<and> no_price (odds_over05_ht (odds unpriced_request))
   \<and> no_price (odds_btts (odds unpriced_request))
   \<and> map_of (stake_kelly (recommendation unpriced_request)) ''over25'' = Some 0
   \<and> map_of (stake_kelly (recommendation unpriced_request)) ''goal_ht'' = Some 0
   \<and> map_of (stake_kelly (recommendation unpriced_request)) ''btts'' = Some 0
   \<and> (1/2 :: real) - 1 \<le> 0
   \<and> kelly_fraction (Some (3/5)) (Some (1/2)) = 0"
proof -
  have h: "no_price (odds_over25 (odds unpriced_request))"
    "no_price (odds_over05_ht (odds unpriced_request))"
    "no_price (odds_btts (odds unpriced_request))"
    by (simp_all add: unpriced_request_def request_def no_price_def)
  have b: "(1/2 :: real) - 1 \<le> 0" by simp
  show ?thesis
    using h b stake_zero_without_price [of unpriced_request "Some (3/5)" "1/2"] by blast
qed

lemma kelly_fraction_range:
  "0 \<le> kelly_fraction prob oddsv \<and> kelly_fraction prob oddsv \<le> 0.5"
proof (cases prob)
  case None
  then show ?thesis by (simp add: kelly_fraction_def)
next
  case (Some p)
  show ?thesis
  proof (cases oddsv)
    case None
    with Some show ?thesis by (simp add: kelly_fraction_def)
  next
    case (Some od)
    have "(0::real) \<le> 0.5" by simp
    from clamp_range [OF this] \<open>prob = Some p\<close> Some show ?thesis
      unfolding kelly_fraction_def Let_def by simp
  qed
qed

lemma kelly_fraction_mono:
  assumes "1 < od" "p \<le> q"
  shows "kelly_fraction (Some p) (Some od) \<le> kelly_fraction (Some q) (Some od)"
proof -
  let ?b = "od - 1"
  have b: "0 < ?b" using assms by simp
  have "(1 - q) / ?b \<le> (1 - p) / ?b" using assms b by (simp add: divide_right_mono)
  then have "p - (1 - p) / ?b \<le> q - (1 - q) / ?b" using assms by linarith
  then have "(p - (1 - p) / ?b) / ?b \<le> (q - (1 - q) / ?b) / ?b"
    using b by (simp add: divide_right_mono)
  from clamp_mono [OF this] show ?thesis using b by (simp add: kelly_fraction_def Let_def)
qed

text \<open>
  Claim C8. For fixed odds \<open>o > 1\<close>, \<^verbatim>\<open>kelly_fraction\<close> is monotonically non-decreasing in
  the probability; and for all arguments, absent ones included, its value lies in
  \<open>[0, 0.5]\<close>.
\<close>

theorem kelly_fraction_monotone_bounded:
  "(1 < od \<longrightarrow> p \<le> q \<longrightarrow>
       kelly_fraction (Some p) (Some od) \<le> kelly_fraction (Some q) (Some od))
   \<and> 0 \<le> kelly_fraction prob oddsv \<and> kelly_fraction prob oddsv \<le> 0.5"
  using kelly_fraction_mono [of od p q] kelly_fraction_range [of prob oddsv] by blast

theorem kelly_fraction_monotone_bounded_witness:
  "(1::real) < 2 \<and> (1/2 :: real) \<le> 3/5
   \<and> kelly_fraction (Some (1/2)) (Some 2) = 0
   \<and> kelly_fraction (Some (3/5)) (Some 2) = 1/5
   \<and> kelly_fraction (Some (1/2)) (Some 2) \<le> kelly_fraction (Some (3/5)) (Some 2)
   \<and> 0 \<le> kelly_fraction (Some (3/5)) (Some 2) \<and> kelly_fraction (Some (3/5)) (Some 2) \<le> 0.5"
proof -
  have h: "(1::real) < 2" "(1/2 :: real) \<le> 3/5" by simp_all
  have v: "kelly_fraction (Some (1/2)) (Some 2) = 0" "kelly_fraction (Some (3/5)) (Some 2) = 1/5"
    by (simp_all add: kelly_fraction_def Let_def)
  show ?thesis
    using h v kelly_fraction_monotone_bounded [of 2 "1/2" "3/5" "Some (3/5)" "Some 2"] by blast
qed

lemma kelly_fraction_positive_net:
  "0 < od - 1 \<Longrightarrow>
   kelly_fraction (Some p) (Some od) = max 0 (min 0.5 ((p - (1 - p) / (od - 1)) / (od - 1)))"
  by (simp add: kelly_fraction_def Let_def)

lemma or_zero_priced: "0 < od - 1 \<Longrightarrow> or_zero (Some od) = od"
  by (simp add: or_zero_def)

lemma stake_priced:
  assumes "0 < od - 1"
  shows "round_py (m * kelly_fraction (Some p) (Some (or_zero (Some od)))) 3
         = stake_clamped_then_scaled m p od"
  unfolding or_zero_priced [OF assms] kelly_fraction_positive_net [OF assms]
    stake_clamped_then_scaled_def Let_def by simp

lemma over25_pressing: "over25 (heuristic_probs pressing_stats) = 0.95"
  by (simp add: heuristic_probs_def pressing_stats_def Let_def clip01_def xg_high_def)

lemma goal_ht_pressing: "goal_ht (heuristic_probs pressing_stats) = 0.70"
  by (simp add: heuristic_probs_def pressing_stats_def Let_def clip01_def)

lemma btts_pressing: "btts (heuristic_probs pressing_stats) = 0.41"
  by (simp add: heuristic_probs_def pressing_stats_def Let_def clip01_def)

lemma stake_values:
  "stake_clamped_then_scaled 0.25 0.95 1.5 = 0.125"
  "stake_spec 0.25 0.95 1.5 = 0.425"
  "stake_clamped_then_scaled 0.25 0.70 1.4 = 0"
  "stake_clamped_then_scaled 0.20 0.41 2.1 = 0"
  by (simp_all add: stake_clamped_then_scaled_def stake_spec_def Let_def round_py_def
        round_half_even_def)

text \<open>
  Claim C1, as amended. For a market whose odds \<open>o\<close> are present with net odds
  \<open>b = o - 1 > 0\<close>, the stake is obtained from \<open>edge = p - (1 - p) / b\<close> and the Kelly
  fraction \<open>edge / b\<close> by clamping the Kelly fraction to \<open>[0, 0.5]\<close> first, scaling the
  clamped value by the market's multiplier (0.25 for over25 and goal_ht, 0.20 for btts)
  next, and rounding to 3 decimals last.
\<close>

theorem stake_clamped_before_scaling:
  "(odds_over25 (odds req) = Some o1 \<and> 0 < o1 - 1 \<longrightarrow>
      map_of (stake_kelly (recommendation req)) ''over25''
        = Some (stake_clamped_then_scaled 0.25 (over25 (heuristic_probs (stats req))) o1))
   \<and> (odds_over05_ht (odds req) = Some o2 \<and> 0 < o2 - 1 \<longrightarrow>
      map_of (stake_kelly (recommendation req)) ''goal_ht''
        = Some (stake_clamped_then_scaled 0.25 (goal_ht (heuristic_probs (stats req))) o2))
   \<and> (odds_btts (odds req) = Some o3 \<and> 0 < o3 - 1 \<longrightarrow>
      map_of (stake_kelly (recommendation req)) ''btts''
        = Some (stake_clamped_then_scaled 0.20 (btts (heuristic_probs (stats req))) o3))"
  by (intro conjI impI; elim conjE; simp only: stake_kelly_lookup stake_priced)

theorem stake_clamped_before_scaling_witness:
  "odds_over25 (odds priced_request) = Some 1.5 \<and> (0::real) < 1.5 - 1
   \<and> odds_over05_ht (odds priced_request) = Some 1.4 \<and> (0::real) < 1.4 - 1
   \<and> odds_btts (odds priced_request) = Some 2.1 \<and> (0::real) < 2.1 - 1
   \<and> map_of (stake_kelly (recommendation priced_request)) ''over25'' = Some 0.125
   \<and> map_of (stake_kelly (recommendation priced_request)) ''goal_ht'' = Some 0
   \<and> map_of (stake_kelly (recommendation priced_request)) ''btts'' = Some 0"
proof -
  have h: "odds_over25 (odds priced_request) = Some 1.5" "(0::real) < 1.5 - 1"
    "odds_over05_ht (odds priced_request) = Some 1.4" "(0::real) < 1.4 - 1"
    "odds_btts (odds priced_request) = Some 2.1" "(0::real) < 2.1 - 1"
    by (simp_all add: priced_request_def request_def)
  have s: "stats priced_request = pressing_stats"
    by (simp add: priced_request_def request_def)
  show ?thesis
    using h stake_clamped_before_scaling [of priced_request "1.5" "1.4" "2.1"]
    unfolding s over25_pressing goal_ht_pressing btts_pressing stake_values by blast
qed

text \<open>
  The claim as stated, with the scaled value clamped, fails: at probability 0.95 and odds
  1.5 the Kelly fraction is 1.7, the endpoint returns \<open>0.25 * 0.5 = 0.125\<close>, and scaling
  before clamping would give \<open>0.25 * 1.7 = 0.425\<close>.
\<close>

theorem stake_not_scaled_then_clamped:
  "odds_over25 (odds priced_request) = Some 1.5
   \<and> over25 (heuristic_probs (stats priced_request)) = 0.95
   \<and> map_of (stake_kelly (recommendation priced_request)) ''over25'' = Some 0.125
   \<and> stake_spec 0.25 0.95 1.5 = 0.425
   \<and> map_of (stake_kelly (recommendation priced_request)) ''over25''
       \<noteq> Some (stake_spec 0.25 0.95 1.5)"
proof -
  have o: "odds_over25 (odds priced_request) = Some 1.5"
    and s: "stats priced_request = pressing_stats"
    by (simp_all add: priced_request_def request_def)
  have pos: "(0::real) < 1.5 - 1" by simp
  have "map_of (stake_kelly (recommendation priced_request)) ''over25''
        = Some (stake_clamped_then_scaled 0.25 0.95 1.5)"
    by (simp only: stake_kelly_lookup(1) o s over25_pressing stake_priced [OF pos])
  then show ?thesis using o s over25_pressing stake_values by simp
qed

lemma scaled_stake_range:
  assumes "0 \<le> k" "k \<le> 0.5" "0 \<le> m" "m * 500 = of_int j"
  shows "0 \<le> round_py (m * k) 3 \<and> round_py (m * k) 3 \<le> of_int j / 1000"
proof -
  have "round_py 0 3 \<le> round_py (m * k) 3"
    using assms by (intro round_py_mono) simp
  moreover have "m * k \<le> m * 0.5" using assms by (intro mult_left_mono) simp_all
  then have "m * k \<le> of_int j / 1000" using assms(4) by simp
  then have "round_py (m * k) 3 \<le> round_py (of_int j / 1000) 3" by (rule round_py_mono)
  ultimately show ?thesis unfolding round_py_3_fix round_py_zero by simp
qed

lemma quarter_stake_range:
  "0 \<le> round_py (0.25 * kelly_fraction prob oddsv) 3
   \<and> round_py (0.25 * kelly_fraction prob oddsv) 3 \<le> 0.125"
  using scaled_stake_range [of "kelly_fraction prob oddsv" "0.25" 125] kelly_fraction_range [of prob oddsv]
  by simp

lemma fifth_stake_range:
  "0 \<le> round_py (0.20 * kelly_fraction prob oddsv) 3
   \<and> round_py (0.20 * kelly_fraction prob oddsv) 3 \<le> 0.10"
  using scaled_stake_range [of "kelly_fraction prob oddsv" "0.20" 100] kelly_fraction_range [of prob oddsv]
  by simp

text \<open>
  Claim C9. For every request, the stake of over25 and of goal_ht is at most 0.125 and
  the stake of btts at most 0.10: the multiplier times the bound 0.5 of \<^verbatim>\<open>kelly_fraction\<close>,
  which rounding to 3 decimals leaves in place. No stake is negative.
\<close>

theorem stake_bounds:
  "\<exists>a b c. stake_kelly (recommendation req) = [(''over25'', a), (''goal_ht'', b), (''btts'', c)]
     \<and> 0 \<le> a \<and> a \<le> 0.125 \<and> 0 \<le> b \<and> b \<le> 0.125 \<and> 0 \<le> c \<and> c \<le> 0.10"
  using quarter_stake_range fifth_stake_range
  by (simp add: recommendation_def stakes_def Let_def)

subsection \<open>The probability model\<close>

lemma xg_high_iff: "xg_high x = (case x of None \<Rightarrow> False | Some v \<Rightarrow> 0.9 \<le> v)"
  by (auto simp: xg_high_def split: option.split)

text \<open>
  Claim C6. For every snapshot, the over-2.5 probability of \<^verbatim>\<open>heuristic_probs\<close> is
  \<open>0.30 + 0.02 * shots_total + 0.04 * shots_box + 0.08 * big_chances\<close>, plus \<open>0.20\<close> when
  \<open>xg_sum\<close> is present and at least \<open>0.9\<close>, clamped into \<open>[0.01, 0.95]\<close>. (The truth test
  of the source on \<open>xg_sum\<close> adds nothing: a value of at least \<open>0.9\<close> is not zero.)
\<close>

theorem over25_formula: "over25 (heuristic_probs s) = over25_spec s"
  by (simp add: heuristic_probs_def Let_def clip01_def over25_spec_def xg_high_iff
           split: option.split)

lemma clip01_range: "0.01 \<le> clip01 x \<and> clip01 x \<le> 0.95"
  by (simp add: clip01_def)

lemma round_py_clip01_range: "0.01 \<le> round_py (clip01 x) 3 \<and> round_py (clip01 x) 3 \<le> 0.95"
proof -
  have "round_py (of_int 10 / 1000) 3 \<le> round_py (clip01 x) 3"
    using clip01_range [of x] by (intro round_py_mono) simp
  moreover have "round_py (clip01 x) 3 \<le> round_py (of_int 950 / 1000) 3"
    using clip01_range [of x] by (intro round_py_mono) simp
  ultimately show ?thesis unfolding round_py_3_fix by simp
qed

text \<open>
  Claim C2. For every request, each of \<open>p_over25\<close>, \<open>p_goal_ht\<close>, \<open>p_btts\<close> and each of the
  three values of \<open>p_1x2\<close> in the response lies in \<open>[0.01, 0.95]\<close>; so none is 0 or 1.
  Rounding to 3 decimals keeps the clamped values in the interval.
\<close>

theorem probabilities_in_range:
  "0.01 \<le> p_over25 (recommendation req) \<and> p_over25 (recommendation req) \<le> 0.95
   \<and> 0.01 \<le> p_goal_ht (recommendation req) \<and> p_goal_ht (recommendation req) \<le> 0.95
   \<and> 0.01 \<le> p_btts (recommendation req) \<and> p_btts (recommendation req) \<le> 0.95
   \<and> (\<exists>a b c. p_1x2 (recommendation req) = [(''1'', a), (''X'', b), (''2'', c)]
         \<and> 0.01 \<le> a \<and> a \<le> 0.95 \<and> 0.01 \<le> b \<and> b \<le> 0.95 \<and> 0.01 \<le> c \<and> c \<le> 0.95)"
  using round_py_clip01_range
  by (simp add: recommendation_def heuristic_probs_def Let_def)

subsection \<open>The three-way distribution\<close>
































subsection \<open>The example of the specification\<close>

lemma over25_live: "over25 (heuristic_probs (live_stats f)) = 0.38"
  by (simp add: heuristic_probs_def live_stats_def Let_def clip01_def xg_high_def)

lemma p_over25_example: "p_over25 (recommendation example_request) = 0.38"
proof -
  have "p_over25 (recommendation example_request) = round_py (of_int 380 / 1000) 3"
    by (simp add: recommendation_def example_request_def request_def Let_def over25_live)
  then show ?thesis unfolding round_py_3_fix by simp
qed

text \<open>
  Claim C3, as amended. For the mock snapshot (minute 27, 2 shots, 1 in the box, 1 on
  target, no big chance, 1 corner, possession 52 to 48, balanced momentum, \<open>xg_sum\<close> 0.25)
  and no odds, the response has \<open>p_over25 = 0.38\<close> (that is \<open>0.30 + 0.04 + 0.04\<close>), the three
  expected values \<open>None\<close>, the three stakes 0 and the fallback message as its only
  rationale.
\<close>

theorem example_response:
  "p_over25 (recommendation example_request) = 0.38
   \<and> ev_out (recommendation example_request)
       = [(''over25'', None), (''goal_ht'', None), (''btts'', None)]
   \<and> stake_kelly (recommendation example_request)
       = [(''over25'', 0), (''goal_ht'', 0), (''btts'', 0)]
   \<and> rationale (recommendation example_request) = [msg_fallback]"
proof -
  have np: "no_price None" by (simp add: no_price_def)
  have "ev_out (recommendation example_request)
       = [(''over25'', None), (''goal_ht'', None), (''btts'', None)]"
    by (simp add: recommendation_def example_request_def request_def no_odds_def Let_def
          evs_def ev_def)
  moreover have "stake_kelly (recommendation example_request)
       = [(''over25'', 0), (''goal_ht'', 0), (''btts'', 0)]"
    using kelly_fraction_no_edge [OF no_price_or_zero [OF np]]
    by (simp add: recommendation_def example_request_def request_def no_odds_def Let_def
          stakes_def round_py_zero)
  moreover have "rationale (recommendation example_request) = [msg_fallback]"
    by (simp add: recommendation_def example_request_def request_def Let_def
          rationale_list_def live_stats_def)
  ultimately show ?thesis using p_over25_example by simp
qed

text \<open>The value 0.36 of the claim as stated is off by 0.02.\<close>

theorem example_response_not_036:
  "p_over25 (recommendation example_request) = 0.38
   \<and> \<not> \<bar>p_over25 (recommendation example_request) - 0.36\<bar> < 0.02"
  by (simp add: p_over25_example)


end
